theory Spec2Isabelle
  imports Main
begin

section \<open>Python values, errors and the data mapping\<close>

text \<open>
  The module \<open>albumentations/core/utils.py\<close> works on a \<open>Dict[str, Any]\<close>. The values it
  meets are the image (a numpy array or a torch tensor, of which only the shape is read), the
  annotation collections (sequences of rows, a row being a sequence of scalars) and the label
  collections (sequences of scalars). Arrays and tensors are modelled by their shape alone;
  numeric scalars are integers (the module never computes with them); \<open>PyObject c\<close> is an
  object of some other class \<open>c\<close> that is neither sized, iterable, subscriptable nor has a
  \<open>shape\<close>.
\<close>

datatype pyval =
    PyNone
  | PyInt int
  | PyStr string
  | PyList "pyval list"
  | PyTuple "pyval list"
  | PyNdarray "nat list"
  | PyTensor "nat list"
  | PyObject string

text \<open>
  Exceptions are values. Only the messages the module itself writes are modelled; an error
  raised by the interpreter (a failed \<open>len\<close>, an index out of range, a failed unpacking)
  carries the empty message. \<open>KeyError\<close> carries the missing key.
\<close>

datatype error =
    ValueError string
  | TypeError string
  | RuntimeError string
  | KeyError string
  | IndexError
  | AttributeError
  | OtherError string

type_synonym pydict = "string \<rightharpoonup> pyval"

text \<open>
  What a method hands back when it returns: \<open>None\<close>, or the reference \<open>data\<close> it was
  called with (the very mapping object, whose content is the state threaded through the call).
\<close>

datatype returned = RetNone | RetData

text \<open>Sequencing of fallible steps: the first error ends the computation.\<close>

definition and_then :: "error + 'a \<Rightarrow> ('a \<Rightarrow> error + 'b) \<Rightarrow> error + 'b" where
  "and_then m f = (case m of Inl e \<Rightarrow> Inl e | Inr x \<Rightarrow> f x)"

fun mapM :: "('a \<Rightarrow> error + 'b) \<Rightarrow> 'a list \<Rightarrow> error + 'b list" where
  "mapM f [] = Inr []"
| "mapM f (x # xs) = and_then (f x) (\<lambda>y. and_then (mapM f xs) (\<lambda>ys. Inr (y # ys)))"

text \<open>\<open>data[k]\<close>\<close>

definition getitem :: "pydict \<Rightarrow> string \<Rightarrow> error + pyval" where
  "getitem data k = (case data k of None \<Rightarrow> Inl (KeyError k) | Some v \<Rightarrow> Inr v)"

text \<open>\<open>len(v)\<close>\<close>

fun py_len :: "pyval \<Rightarrow> error + nat" where
  "py_len (PyList xs) = Inr (length xs)"
| "py_len (PyTuple xs) = Inr (length xs)"
| "py_len (PyStr s) = Inr (length s)"
| "py_len (PyNdarray (n # shp)) = Inr n"
| "py_len (PyTensor (n # shp)) = Inr n"
| "py_len v = Inl (TypeError [])"

text \<open>Iteration over \<open>v\<close>, as \<open>list(v)\<close>, \<open>zip\<close> and a comprehension do it.\<close>

fun py_iter :: "pyval \<Rightarrow> error + pyval list" where
  "py_iter (PyList xs) = Inr xs"
| "py_iter (PyTuple xs) = Inr xs"
| "py_iter (PyStr s) = Inr (map (\<lambda>c. PyStr [c]) s)"
| "py_iter (PyNdarray (n # shp)) = Inr (replicate n (PyNdarray shp))"
| "py_iter (PyTensor (n # shp)) = Inr (replicate n (PyTensor shp))"
| "py_iter v = Inl (TypeError [])"

text \<open>
  Python's index normalisation: a negative index counts from the end, and an index outside
  the sequence raises \<open>IndexError\<close>.
\<close>

definition norm_index :: "nat \<Rightarrow> int \<Rightarrow> error + nat" where
  "norm_index n i =
     (let j = (if i < 0 then int n + i else i)
      in if 0 \<le> j \<and> j < int n then Inr (nat j) else Inl IndexError)"

text \<open>\<open>v[i]\<close>\<close>

fun py_index :: "pyval \<Rightarrow> int \<Rightarrow> error + pyval" where
  "py_index (PyList xs) i = and_then (norm_index (length xs) i) (\<lambda>j. Inr (xs ! j))"
| "py_index (PyTuple xs) i = and_then (norm_index (length xs) i) (\<lambda>j. Inr (xs ! j))"
| "py_index (PyStr s) i = and_then (norm_index (length s) i) (\<lambda>j. Inr (PyStr [s ! j]))"
| "py_index (PyNdarray (n # shp)) i = and_then (norm_index n i) (\<lambda>j. Inr (PyNdarray shp))"
| "py_index (PyNdarray []) i = Inl IndexError"
| "py_index (PyTensor (n # shp)) i = and_then (norm_index n i) (\<lambda>j. Inr (PyTensor shp))"
| "py_index (PyTensor []) i = Inl IndexError"
| "py_index v i = Inl (TypeError [])"

text \<open>
  The end of the slice \<open>v[:stop]\<close> on a sequence of length \<open>n\<close>: a negative \<open>stop\<close>
  counts from the end, and the result is clipped to \<open>0..n\<close>.
\<close>

definition slice_stop :: "nat \<Rightarrow> int \<Rightarrow> nat" where
  "slice_stop n stop = (if stop < 0 then nat (int n + stop) else min n (nat stop))"

text \<open>\<open>v[:stop]\<close>; the slice of a list is a list, of a tuple a tuple.\<close>

fun py_slice_to :: "pyval \<Rightarrow> int \<Rightarrow> error + pyval" where
  "py_slice_to (PyList xs) stop = Inr (PyList (take (slice_stop (length xs) stop) xs))"
| "py_slice_to (PyTuple xs) stop = Inr (PyTuple (take (slice_stop (length xs) stop) xs))"
| "py_slice_to (PyStr s) stop = Inr (PyStr (take (slice_stop (length s) stop) s))"
| "py_slice_to (PyNdarray (n # shp)) stop = Inr (PyNdarray (slice_stop n stop # shp))"
| "py_slice_to (PyNdarray []) stop = Inl IndexError"
| "py_slice_to (PyTensor (n # shp)) stop = Inr (PyTensor (slice_stop n stop # shp))"
| "py_slice_to (PyTensor []) stop = Inl IndexError"
| "py_slice_to v stop = Inl (TypeError [])"

text \<open>The text of \<open>type(v)\<close> in an f-string.\<close>

fun type_repr :: "pyval \<Rightarrow> string" where
  "type_repr PyNone = ''<class 'NoneType'>''"
| "type_repr (PyInt i) = ''<class 'int'>''"
| "type_repr (PyStr s) = ''<class 'str'>''"
| "type_repr (PyList xs) = ''<class 'list'>''"
| "type_repr (PyTuple xs) = ''<class 'tuple'>''"
| "type_repr (PyNdarray shp) = ''<class 'numpy.ndarray'>''"
| "type_repr (PyTensor shp) = ''<class 'torch.Tensor'>''"
| "type_repr (PyObject c) = ''<class '' @ [CHR 0x27] @ c @ [CHR 0x27] @ ''>''"

text \<open>The unpacking \<open>rows, cols = t\<close> needs exactly two items.\<close>

fun unpack2 :: "nat list \<Rightarrow> error + nat \<times> nat" where
  "unpack2 [r, c] = Inr (r, c)"
| "unpack2 t = Inl (ValueError [])"

text \<open>\<open>v.shape\<close>\<close>

fun py_shape :: "pyval \<Rightarrow> error + nat list" where
  "py_shape (PyNdarray shp) = Inr shp"
| "py_shape (PyTensor shp) = Inr shp"
| "py_shape v = Inl AttributeError"

section \<open>The consistency wrapper and the image shape\<close>

text \<open>
  \<open>ensure_internal_format(func)\<close> returns \<open>wrapper\<close>. The class \<open>BatchInternalType\<close> lives
  in \<open>types.py\<close>, so the test \<open>isinstance(data, BatchInternalType)\<close>, the method
  \<open>check_consistency\<close> (which returns or raises) and the text of \<open>type(data)\<close> are
  parameters, as is \<open>func.__name__\<close>. The wrapped function gets the arguments \<open>x\<close>.
\<close>

definition ensure_internal_format ::
  "('v \<Rightarrow> bool) \<Rightarrow> ('v \<Rightarrow> error + unit) \<Rightarrow> ('v \<Rightarrow> string) \<Rightarrow> string \<Rightarrow>
   ('a \<Rightarrow> error + 'v) \<Rightarrow> 'a \<Rightarrow> error + 'v" where
  "ensure_internal_format is_batch check_consistency type_of func_name func x =
     and_then (func x) (\<lambda>data.
       if is_batch data then and_then (check_consistency data) (\<lambda>_. Inr data)
       else Inl (TypeError (''The return from '' @ func_name @
                  '' should be a `BatchInternalType`, instead it returns a '' @ type_of data @ ''.'')))"

text \<open>
  \<open>get_shape(img)\<close>. A tensor exists only where \<open>torch\<close> can be imported, so the
  \<open>ImportError\<close> handler is reached for values that are not tensors only, and falls through
  to the same \<open>raise\<close>. For an array the two-name unpacking of \<open>img.shape[:2]\<close> can fail;
  for a tensor \<open>img.shape[-2:]\<close> is returned as it is.
\<close>

fun get_shape :: "pyval \<Rightarrow> error + nat list" where
  "get_shape (PyNdarray shp) = and_then (unpack2 (take 2 shp)) (\<lambda>(rows, cols). Inr [rows, cols])"
| "get_shape (PyTensor shp) = Inr (drop (length shp - 2) shp)"
| "get_shape img = Inl (RuntimeError
     (''Albumentations supports only numpy.ndarray and torch.Tensor data type for image. Got: '' @
      type_repr img))"

section \<open>Params and DataProcessor\<close>

record Params =
  format :: string
  label_fields :: "string list option"

text \<open>
  The abstract methods of \<open>DataProcessor\<close> are fields of the record: each concrete subclass
  supplies them. They take and give values and may raise.
\<close>

record DataProcessor =
  params :: Params
  data_fields :: "string list"
  convert_to_internal_type :: "pyval \<Rightarrow> error + pyval"
  convert_to_original_type :: "pyval \<Rightarrow> error + pyval"
  filter_data :: "pyval \<Rightarrow> nat \<Rightarrow> nat \<Rightarrow> string \<Rightarrow> error + pyval"
  check :: "pyval \<Rightarrow> nat \<Rightarrow> nat \<Rightarrow> error + unit"
  convert_to_albumentations :: "pyval \<Rightarrow> nat \<Rightarrow> nat \<Rightarrow> error + pyval"
  convert_from_albumentations :: "pyval \<Rightarrow> nat \<Rightarrow> nat \<Rightarrow> error + pyval"

text \<open>
  \<open>__init__\<close> builds \<open>data_fields\<close>: the default name, then every key of
  \<open>additional_targets\<close> (a dict, here its items in order) whose value is the default name.
\<close>

definition init_data_fields :: "string \<Rightarrow> (string \<times> string) list option \<Rightarrow> string list" where
  "init_data_fields default_data_name additional_targets =
     (case additional_targets of
        None \<Rightarrow> [default_data_name]
      | Some items \<Rightarrow> default_data_name # map fst (filter (\<lambda>(k, v). v = default_data_name) items))"

text \<open>\<open>check_and_convert(data, rows, cols, direction)\<close>\<close>

definition check_and_convert ::
  "DataProcessor \<Rightarrow> pyval \<Rightarrow> nat \<Rightarrow> nat \<Rightarrow> string \<Rightarrow> error + pyval" where
  "check_and_convert P data rows cols direction =
     (if format (params P) = ''albumentations''
      then and_then (check P data rows cols) (\<lambda>_. Inr data)
      else if direction = ''to'' then convert_to_albumentations P data rows cols
      else if direction = ''from'' then convert_from_albumentations P data rows cols
      else Inl (ValueError (''Invalid direction. Must be `to` or `from`. Got `'' @ direction @ ''`'')))"

section \<open>Merging label columns into the rows\<close>

text \<open>
  A loop that mutates the mapping gives back the mapping it reached together with the
  exception that ended it, if any: what was stored before a \<open>raise\<close> stays stored.
\<close>

type_synonym 'a outcome = "(error + 'a) \<times> pydict"

text \<open>
  The body of the inner loop of \<open>add_label_fields_to_data\<close> for one \<open>data_name\<close> and one
  \<open>field\<close>: the length test, the rows \<open>[*list(d), field_value]\<close> built over
  \<open>zip(data[data_name], data[field])\<close>, and the assignment to \<open>data[data_name]\<close>.
  Nothing is stored unless every step succeeds.
\<close>

definition add_field :: "string \<Rightarrow> string \<Rightarrow> pydict \<Rightarrow> error + pydict" where
  "add_field data_name field data =
     and_then (getitem data data_name) (\<lambda>a.
     and_then (py_len a) (\<lambda>n.
     and_then (getitem data field) (\<lambda>b.
     and_then (py_len b) (\<lambda>m.
       if \<not> n = m then Inl (ValueError [])
       else
         and_then (py_iter a) (\<lambda>ds.
         and_then (py_iter b) (\<lambda>field_values.
         and_then (mapM (\<lambda>(d, field_value).
                      and_then (py_iter d) (\<lambda>xs. Inr (PyList (xs @ [field_value]))))
                    (zip ds field_values)) (\<lambda>data_with_added_field.
           Inr (data(data_name \<mapsto> PyList data_with_added_field)))))))))"

text \<open>\<open>for field in self.params.label_fields\<close>\<close>

fun add_fields :: "string \<Rightarrow> string list \<Rightarrow> pydict \<Rightarrow> error option \<times> pydict" where
  "add_fields data_name [] data = (None, data)"
| "add_fields data_name (field # lfields) data =
     (case add_field data_name field data of
        Inl e \<Rightarrow> (Some e, data)
      | Inr data' \<Rightarrow> add_fields data_name lfields data')"

text \<open>\<open>for data_name in self.data_fields\<close>\<close>

fun add_all :: "string list \<Rightarrow> string list \<Rightarrow> pydict \<Rightarrow> error option \<times> pydict" where
  "add_all [] lfields data = (None, data)"
| "add_all (data_name # data_names) lfields data =
     (case add_fields data_name lfields data of
        (Some e, data') \<Rightarrow> (Some e, data')
      | (None, data') \<Rightarrow> add_all data_names lfields data')"

definition add_label_fields_to_data :: "DataProcessor \<Rightarrow> pydict \<Rightarrow> returned outcome" where
  "add_label_fields_to_data P data =
     (case label_fields (params P) of
        None \<Rightarrow> (Inr RetData, data)
      | Some lfields \<Rightarrow>
          (case add_all (data_fields P) lfields data of
             (Some e, data') \<Rightarrow> (Inl e, data')
           | (None, data') \<Rightarrow> (Inr RetData, data')))"

section \<open>Splitting the label columns off again\<close>

text \<open>\<open>[bbox[-label_fields_len + idx] for bbox in v]\<close>\<close>

definition label_column :: "nat \<Rightarrow> nat \<Rightarrow> pyval \<Rightarrow> error + pyval" where
  "label_column label_fields_len idx v =
     and_then (py_iter v) (\<lambda>bboxes.
     and_then (mapM (\<lambda>bbox. py_index bbox (- int label_fields_len + int idx)) bboxes) (\<lambda>col.
       Inr (PyList col)))"

text \<open>\<open>[d[:-label_fields_len] for d in v]\<close>\<close>

definition strip_labels :: "nat \<Rightarrow> pyval \<Rightarrow> error + pyval" where
  "strip_labels label_fields_len v =
     and_then (py_iter v) (\<lambda>ds.
     and_then (mapM (\<lambda>d. py_slice_to d (- int label_fields_len)) ds) (\<lambda>rows.
       Inr (PyList rows)))"

text \<open>
  \<open>for idx, field in enumerate(self.params.label_fields)\<close>, over the pairs that
  \<open>enumerate\<close> yields.
\<close>

fun remove_fields :: "string \<Rightarrow> nat \<Rightarrow> (nat \<times> string) list \<Rightarrow> pydict \<Rightarrow> error option \<times> pydict" where
  "remove_fields data_name label_fields_len [] data = (None, data)"
| "remove_fields data_name label_fields_len ((idx, field) # rest) data =
     (case and_then (getitem data data_name) (label_column label_fields_len idx) of
        Inl e \<Rightarrow> (Some e, data)
      | Inr col \<Rightarrow> remove_fields data_name label_fields_len rest (data(field \<mapsto> col)))"

text \<open>The body of the loop over \<open>self.data_fields\<close> for one \<open>data_name\<close>.\<close>

definition remove_one :: "string \<Rightarrow> string list \<Rightarrow> pydict \<Rightarrow> error option \<times> pydict" where
  "remove_one data_name lfields data =
     (let label_fields_len = length lfields in
      case remove_fields data_name label_fields_len (enumerate 0 lfields) data of
        (Some e, data') \<Rightarrow> (Some e, data')
      | (None, data') \<Rightarrow>
          if label_fields_len \<noteq> 0
          then (case and_then (getitem data' data_name) (strip_labels label_fields_len) of
                  Inl e \<Rightarrow> (Some e, data')
                | Inr rows \<Rightarrow> (None, data'(data_name \<mapsto> rows)))
          else (None, data'))"

fun remove_all :: "string list \<Rightarrow> string list \<Rightarrow> pydict \<Rightarrow> error option \<times> pydict" where
  "remove_all [] lfields data = (None, data)"
| "remove_all (data_name # data_names) lfields data =
     (case remove_one data_name lfields data of
        (Some e, data') \<Rightarrow> (Some e, data')
      | (None, data') \<Rightarrow> remove_all data_names lfields data')"

definition remove_label_fields_from_data :: "DataProcessor \<Rightarrow> pydict \<Rightarrow> returned outcome" where
  "remove_label_fields_from_data P data =
     (case label_fields (params P) of
        None \<Rightarrow> (Inr RetData, data)
      | Some lfields \<Rightarrow>
          (case remove_all (data_fields P) lfields data of
             (Some e, data') \<Rightarrow> (Inl e, data')
           | (None, data') \<Rightarrow> (Inr RetData, data')))"

section \<open>preprocess and postprocess\<close>

text \<open>
  The loop of \<open>preprocess\<close>: the converted value is stored under \<open>data_name\<close> before
  \<open>check_and_convert\<close> runs on it, so it stays stored when the check raises.
\<close>

fun preprocess_loop :: "DataProcessor \<Rightarrow> nat \<Rightarrow> nat \<Rightarrow> string list \<Rightarrow> pydict \<Rightarrow> error option \<times> pydict" where
  "preprocess_loop P rows cols [] data = (None, data)"
| "preprocess_loop P rows cols (data_name # data_names) data =
     (case and_then (getitem data data_name) (convert_to_internal_type P) of
        Inl e \<Rightarrow> (Some e, data)
      | Inr v \<Rightarrow>
          (let data1 = data(data_name \<mapsto> v) in
           case and_then (getitem data1 data_name) (\<lambda>v1. check_and_convert P v1 rows cols ''to'') of
             Inl e \<Rightarrow> (Some e, data1)
           | Inr w \<Rightarrow> preprocess_loop P rows cols data_names (data1(data_name \<mapsto> w))))"

text \<open>
  \<open>preprocess\<close> has no \<open>return\<close> statement: it hands back \<open>None\<close>. The height and width
  are read as \<open>data["image"].shape[:2]\<close>, not through \<open>get_shape\<close>.
\<close>

definition preprocess :: "DataProcessor \<Rightarrow> pydict \<Rightarrow> returned outcome" where
  "preprocess P data =
     (case add_label_fields_to_data P data of
        (Inl e, data') \<Rightarrow> (Inl e, data')
      | (Inr _, data') \<Rightarrow>
          (case and_then (getitem data' ''image'') (\<lambda>img.
                and_then (py_shape img) (\<lambda>shp. unpack2 (take 2 shp))) of
             Inl e \<Rightarrow> (Inl e, data')
           | Inr (rows, cols) \<Rightarrow>
               (case preprocess_loop P rows cols (data_fields P) data' of
                  (Some e, data'') \<Rightarrow> (Inl e, data'')
                | (None, data'') \<Rightarrow> (Inr RetNone, data''))))"

fun postprocess_loop :: "DataProcessor \<Rightarrow> nat \<Rightarrow> nat \<Rightarrow> string list \<Rightarrow> pydict \<Rightarrow> error option \<times> pydict" where
  "postprocess_loop P rows cols [] data = (None, data)"
| "postprocess_loop P rows cols (data_name # data_names) data =
     (case and_then (getitem data data_name) (\<lambda>v.
           and_then (filter_data P v rows cols data_name) (\<lambda>v1.
           and_then (check_and_convert P v1 rows cols ''from'') (\<lambda>v2.
             convert_to_original_type P v2))) of
        Inl e \<Rightarrow> (Some e, data)
      | Inr w \<Rightarrow> postprocess_loop P rows cols data_names (data(data_name \<mapsto> w)))"

definition postprocess :: "DataProcessor \<Rightarrow> pydict \<Rightarrow> returned outcome" where
  "postprocess P data =
     (case and_then (getitem data ''image'') (\<lambda>img.
           and_then (get_shape img) unpack2) of
        Inl e \<Rightarrow> (Inl e, data)
      | Inr (rows, cols) \<Rightarrow>
          (case postprocess_loop P rows cols (data_fields P) data of
             (Some e, data') \<Rightarrow> (Inl e, data')
           | (None, data') \<Rightarrow> remove_label_fields_from_data P data'))"

section \<open>Notions used in the statements\<close>

text \<open>
  The rows \<open>[[*d, field_value] for d, field_value in zip(rows, col)]\<close> on plain lists: every
  row extended by its entry of the label column.
\<close>

definition append_column :: "pyval list list \<Rightarrow> pyval list \<Rightarrow> pyval list list" where
  "append_column rows col = map2 (\<lambda>d field_value. d @ [field_value]) rows col"

text \<open>
  A processor whose kind-specific operations hand their rows through: identity conversions,
  a filter that drops nothing and a check that accepts everything.
\<close>

definition passthrough :: "string \<Rightarrow> string list option \<Rightarrow> string list \<Rightarrow> DataProcessor" where
  "passthrough fmt lfs dfs =
     \<lparr> params = \<lparr> format = fmt, label_fields = lfs \<rparr>,
       data_fields = dfs,
       convert_to_internal_type = Inr,
       convert_to_original_type = Inr,
       filter_data = (\<lambda>v rows cols target_name. Inr v),
       check = (\<lambda>v rows cols. Inr ()),
       convert_to_albumentations = (\<lambda>v rows cols. Inr v),
       convert_from_albumentations = (\<lambda>v rows cols. Inr v) \<rparr>"

text \<open>The rows of the end-to-end example, before and after the label column is merged in.\<close>

definition example_rows :: pyval where
  "example_rows = PyList [PyList [PyInt 10, PyInt 10, PyInt 50, PyInt 50]]"

definition example_internal :: pyval where
  "example_internal = PyList [PyList [PyInt 10, PyInt 10, PyInt 50, PyInt 50, PyInt 3]]"

definition example_data :: pydict where
  "example_data =
     [''image'' \<mapsto> PyNdarray [100, 200, 3],
      ''bboxes'' \<mapsto> example_rows,
      ''class_id'' \<mapsto> PyList [PyInt 3]]"

text \<open>Two annotation streams that share two label fields.\<close>

definition two_stream_data :: pydict where
  "two_stream_data =
     [''image'' \<mapsto> PyNdarray [100, 200, 3],
      ''bboxes'' \<mapsto> PyList [PyList [PyInt 1, PyInt 2, PyInt 3, PyInt 4],
                          PyList [PyInt 5, PyInt 6, PyInt 7, PyInt 8]],
      ''bboxes2'' \<mapsto> PyList [PyList [PyInt 9, PyInt 10, PyInt 11, PyInt 12],
                           PyList [PyInt 13, PyInt 14, PyInt 15, PyInt 16]],
      ''class_id'' \<mapsto> PyList [PyInt 7, PyInt 8],
      ''name'' \<mapsto> PyList [PyStr ''cat'', PyStr ''dog'']]"

definition two_stream_processor :: DataProcessor where
  "two_stream_processor =
     passthrough ''coco'' (Some [''class_id'', ''name''])
       (init_data_fields ''bboxes'' (Some [(''bboxes2'', ''bboxes''), (''mask2'', ''mask'')]))"

text \<open>Two streams of merged rows whose label columns differ.\<close>

definition two_stream_merged :: pydict where
  "two_stream_merged =
     [''image'' \<mapsto> PyNdarray [100, 200, 3],
      ''bboxes'' \<mapsto> PyList [PyList [PyInt 1, PyInt 2, PyInt 3, PyInt 4, PyInt 7, PyStr ''cat''],
                          PyList [PyInt 5, PyInt 6, PyInt 7, PyInt 8, PyInt 8, PyStr ''dog'']],
      ''bboxes2'' \<mapsto> PyList [PyList [PyInt 9, PyInt 10, PyInt 11, PyInt 12, PyInt 1, PyStr ''owl''],
                           PyList [PyInt 13, PyInt 14, PyInt 15, PyInt 16, PyInt 2, PyStr ''fox'']]]"

text \<open>
  Lists and tuples are the sequences whose items the merge reads, and \<open>list(v)\<close> of such a
  sequence is the list of its items. A collection of rows is a sequence of sequences;
  \<open>as_rows\<close> is the same collection with the collection and every row turned into a list.
\<close>

fun is_seq :: "pyval \<Rightarrow> bool" where
  "is_seq (PyList xs) = True"
| "is_seq (PyTuple xs) = True"
| "is_seq v = False"

fun seq_items :: "pyval \<Rightarrow> pyval list" where
  "seq_items (PyList xs) = xs"
| "seq_items (PyTuple xs) = xs"
| "seq_items v = []"

definition as_list :: "pyval \<Rightarrow> pyval" where
  "as_list v = PyList (seq_items v)"

definition is_rows :: "pyval \<Rightarrow> bool" where
  "is_rows v \<longleftrightarrow> is_seq v \<and> list_all is_seq (seq_items v)"

definition as_rows :: "pyval \<Rightarrow> pyval" where
  "as_rows v = PyList (map as_list (seq_items v))"

text \<open>One row given as a tuple, with its label column given as a tuple.\<close>

definition tuple_data :: pydict where
  "tuple_data =
     [''image'' \<mapsto> PyNdarray [100, 200, 3],
      ''bboxes'' \<mapsto> PyList [PyTuple [PyInt 10, PyInt 10, PyInt 50, PyInt 50]],
      ''class_id'' \<mapsto> PyTuple [PyInt 3]]"

section \<open>Facts about the loops\<close>

lemma and_then_Inr [simp]: "and_then (Inr x) f = f x"
  by (simp add: and_then_def)

lemma and_then_Inl [simp]: "and_then (Inl e) f = Inl e"
  by (simp add: and_then_def)

lemma getitem_Some [simp]: "data k = Some v \<Longrightarrow> getitem data k = Inr v"
  by (simp add: getitem_def)

lemma mapM_Inr: "(\<And>x. x \<in> set xs \<Longrightarrow> f x = Inr (g x)) \<Longrightarrow> mapM f xs = Inr (map g xs)"
  by (induction xs) simp_all

lemma length_append_column [simp]:
  "length col = length rows \<Longrightarrow> length (append_column rows col) = length rows"
  by (simp add: append_column_def)

lemma mapM_add_rows:
  "length col = length rows \<Longrightarrow>
   mapM (\<lambda>(d, field_value). and_then (py_iter d) (\<lambda>xs. Inr (PyList (xs @ [field_value]))))
        (zip (map PyList rows) col)
   = Inr (map PyList (append_column rows col))"
  by (induction rows col rule: list_induct2') (simp_all add: append_column_def)

lemma add_field_lists:
  assumes "data f = Some (PyList (map PyList rows))" and "data l = Some (PyList col)"
  shows "add_field f l data =
           (if length rows = length col
            then Inr (data(f \<mapsto> PyList (map PyList (append_column rows col))))
            else Inl (ValueError []))"
  using assms by (simp add: add_field_def mapM_add_rows)

lemma length_foldl_append_column:
  "\<forall>col\<in>set cols. length col = length rows \<Longrightarrow>
   length (foldl append_column rows cols) = length rows"
  by (induction cols arbitrary: rows) simp_all

lemma add_fields_lists:
  assumes "f \<notin> set ls"
    and "data f = Some (PyList (map PyList rows))"
    and "\<forall>l\<in>set ls. data l = Some (PyList (L l)) \<and> length (L l) = length rows"
  shows "add_fields f ls data =
           (None, data(f \<mapsto> PyList (map PyList (foldl append_column rows (map L ls)))))"
  using assms
proof (induction ls arbitrary: data rows)
  case Nil
  then show ?case by (simp add: map_upd_triv)
next
  case (Cons l ls)
  let ?rows = "append_column rows (L l)"
  let ?data = "data(f \<mapsto> PyList (map PyList ?rows))"
  have step: "add_field f l data = Inr ?data"
    using Cons.prems by (simp add: add_field_lists)
  have "add_fields f ls ?data =
          (None, ?data(f \<mapsto> PyList (map PyList (foldl append_column ?rows (map L ls)))))"
    using Cons.prems by (intro Cons.IH) auto
  with step show ?case by (simp add: fun_eq_iff)
qed

lemma add_all_lists:
  assumes "distinct fs" and "set ls \<inter> set fs = {}"
    and "\<forall>f\<in>set fs. data f = Some (PyList (map PyList (R f)))"
    and "\<forall>l\<in>set ls. data l = Some (PyList (L l))"
    and "\<forall>f\<in>set fs. \<forall>l\<in>set ls. length (L l) = length (R f)"
  shows "add_all fs ls data =
           (None, (\<lambda>k. if k \<in> set fs
                        then Some (PyList (map PyList (foldl append_column (R k) (map L ls))))
                        else data k))"
  using assms
proof (induction fs arbitrary: data)
  case Nil
  then show ?case by simp
next
  case (Cons f fs)
  let ?v = "\<lambda>k. PyList (map PyList (foldl append_column (R k) (map L ls)))"
  have inner: "add_fields f ls data = (None, data(f \<mapsto> ?v f))"
    using Cons.prems by (intro add_fields_lists) auto
  have "add_all fs ls (data(f \<mapsto> ?v f)) =
          (None, (\<lambda>k. if k \<in> set fs then Some (?v k) else (data(f \<mapsto> ?v f)) k))"
    using Cons.prems by (intro Cons.IH) auto
  with inner show ?case by (auto simp: fun_eq_iff)
qed


lemma nth_foldl_append_column:
  "\<forall>col\<in>set cols. length col = length rows \<Longrightarrow> i < length rows \<Longrightarrow>
   foldl append_column rows cols ! i = rows ! i @ map (\<lambda>col. col ! i) cols"
proof (induction cols arbitrary: rows)
  case Nil
  then show ?case by simp
next
  case (Cons col cols)
  then show ?case by (simp add: append_column_def)
qed

lemma norm_index_tail:
  "idx < n \<Longrightarrow> n \<le> len \<Longrightarrow> norm_index len (- int n + int idx) = Inr (len - n + idx)"
  by (auto simp: norm_index_def Let_def)

lemma py_index_tail:
  "idx < n \<Longrightarrow> n \<le> length r \<Longrightarrow>
   py_index (PyList r) (- int n + int idx) = Inr (r ! (length r - n + idx))"
  by (simp only: py_index.simps norm_index_tail and_then_Inr)

lemma slice_stop_tail: "0 < n \<Longrightarrow> slice_stop len (- int n) = len - n"
  by (auto simp: slice_stop_def)

lemma label_column_merged:
  assumes "\<forall>col\<in>set cols. length col = length rows" and "idx < length cols"
  shows "label_column (length cols) idx (PyList (map PyList (foldl append_column rows cols)))
           = Inr (PyList (cols ! idx))"
proof -
  let ?M = "foldl append_column rows cols"
  let ?n = "length cols"
  have len: "length ?M = length rows"
    using assms(1) by (rule length_foldl_append_column)
  have row: "?M ! i = rows ! i @ map (\<lambda>col. col ! i) cols" if "i < length rows" for i
    using assms(1) that by (rule nth_foldl_append_column)
  have "mapM (\<lambda>bbox. py_index bbox (- int ?n + int idx)) (map PyList ?M)
          = Inr (map (\<lambda>bbox. case bbox of PyList r \<Rightarrow> r ! (length r - ?n + idx) | _ \<Rightarrow> bbox) (map PyList ?M))"
  proof (rule mapM_Inr)
    fix x assume "x \<in> set (map PyList ?M)"
    then obtain i where i: "i < length rows" and x: "x = PyList (?M ! i)"
      using len by (auto simp: in_set_conv_nth)
    have "?n \<le> length (?M ! i)" using row [OF i] by simp
    with assms(2) have "py_index (PyList (?M ! i)) (- int ?n + int idx)
        = Inr (?M ! i ! (length (?M ! i) - ?n + idx))"
      by (intro py_index_tail)
    then show "py_index x (- int ?n + int idx)
        = Inr (case x of PyList r \<Rightarrow> r ! (length r - ?n + idx) | _ \<Rightarrow> x)"
      by (simp only: x pyval.case)
  qed
  moreover have "map (\<lambda>bbox. case bbox of PyList r \<Rightarrow> r ! (length r - ?n + idx) | _ \<Rightarrow> bbox) (map PyList ?M)
          = cols ! idx"
  proof (rule nth_equalityI)
    show "length (map (\<lambda>bbox. case bbox of PyList r \<Rightarrow> r ! (length r - ?n + idx) | _ \<Rightarrow> bbox) (map PyList ?M))
            = length (cols ! idx)"
      using len assms by simp
  next
    fix i assume "i < length (map (\<lambda>bbox. case bbox of PyList r \<Rightarrow> r ! (length r - ?n + idx) | _ \<Rightarrow> bbox) (map PyList ?M))"
    then have i: "i < length rows" using len by simp
    then show "map (\<lambda>bbox. case bbox of PyList r \<Rightarrow> r ! (length r - ?n + idx) | _ \<Rightarrow> bbox) (map PyList ?M) ! i
            = cols ! idx ! i"
      using len assms(2) by (simp add: row nth_append)
  qed
  ultimately show ?thesis by (simp add: label_column_def)
qed

lemma strip_labels_merged:
  assumes "\<forall>col\<in>set cols. length col = length rows" and "cols \<noteq> []"
  shows "strip_labels (length cols) (PyList (map PyList (foldl append_column rows cols)))
           = Inr (PyList (map PyList rows))"
proof -
  let ?M = "foldl append_column rows cols"
  let ?n = "length cols"
  have len: "length ?M = length rows"
    using assms(1) by (rule length_foldl_append_column)
  have row: "?M ! i = rows ! i @ map (\<lambda>col. col ! i) cols" if "i < length rows" for i
    using assms(1) that by (rule nth_foldl_append_column)
  have "mapM (\<lambda>d. py_slice_to d (- int ?n)) (map PyList ?M)
          = Inr (map (\<lambda>d. case d of PyList r \<Rightarrow> PyList (take (length r - ?n) r) | _ \<Rightarrow> d) (map PyList ?M))"
    using assms(2) by (intro mapM_Inr) (auto simp: slice_stop_tail)
  moreover have "map (\<lambda>d. case d of PyList r \<Rightarrow> PyList (take (length r - ?n) r) | _ \<Rightarrow> d) (map PyList ?M)
          = map PyList rows"
    using len by (intro nth_equalityI) (simp_all add: row)
  ultimately show ?thesis by (simp add: strip_labels_def)
qed


lemma add_field_frame:
  "add_field f l data = Inr data' \<Longrightarrow> k \<noteq> f \<Longrightarrow> data' k = data k"
  by (auto simp: add_field_def and_then_def split: sum.splits if_splits)

lemma add_fields_frame:
  "add_fields f ls data = (r, data') \<Longrightarrow> k \<noteq> f \<Longrightarrow> data' k = data k"
proof (induction ls arbitrary: data)
  case Nil
  then show ?case by simp
next
  case (Cons l ls)
  then show ?case
    by (auto split: sum.splits dest: add_field_frame)
qed

lemma add_all_frame:
  "add_all fs ls data = (r, data') \<Longrightarrow> k \<notin> set fs \<Longrightarrow> data' k = data k"
proof (induction fs arbitrary: data)
  case Nil
  then show ?case by simp
next
  case (Cons f fs)
  obtain r1 d1 where one: "add_fields f ls data = (r1, d1)" by (cases "add_fields f ls data")
  with Cons.prems have "d1 k = data k" by (auto dest: add_fields_frame)
  with Cons one show ?case by (cases r1) auto
qed

lemma preprocess_loop_frame:
  "preprocess_loop P rows cols fs data = (r, data') \<Longrightarrow> k \<notin> set fs \<Longrightarrow> data' k = data k"
proof (induction fs arbitrary: data)
  case Nil
  then show ?case by simp
next
  case (Cons f fs)
  then show ?case
    by (auto simp: Let_def split: sum.splits)
qed

lemma add_field_sized:
  assumes "\<exists>rows. data f = Some (PyList (map PyList rows)) \<and> length rows = n"
    and "\<exists>col. data l = Some (PyList col) \<and> length col = m"
  shows "if n = m
         then \<exists>rows'. length rows' = n \<and> add_field f l data = Inr (data(f \<mapsto> PyList (map PyList rows')))
         else add_field f l data = Inl (ValueError [])"
proof -
  from assms obtain rows col where
    "data f = Some (PyList (map PyList rows))" "length rows = n"
    "data l = Some (PyList col)" "length col = m"
    by blast
  then show ?thesis
    using length_append_column [of col rows]
    by (auto simp: add_field_lists intro!: exI [of _ "append_column rows col"])
qed

lemma add_fields_sized:
  assumes "\<exists>rows. data f = Some (PyList (map PyList rows)) \<and> length rows = N f"
    and "\<forall>l\<in>set ls. \<exists>col. data l = Some (PyList col) \<and> length col = N l"
  shows "if \<forall>l\<in>set ls. N l = N f
         then \<exists>rows'. length rows' = N f \<and>
                add_fields f ls data = (None, data(f \<mapsto> PyList (map PyList rows')))
         else \<exists>data'. add_fields f ls data = (Some (ValueError []), data')"
  using assms
proof (induction ls arbitrary: data)
  case Nil
  then show ?case by (auto simp: map_upd_triv)
next
  case (Cons l ls)
  from Cons.prems have l: "\<exists>col. data l = Some (PyList col) \<and> length col = N l"
    by simp
  show ?case
  proof (cases "N f = N l")
    case False
    with add_field_sized [OF Cons.prems(1) l] show ?thesis by auto
  next
    case True
    with add_field_sized [OF Cons.prems(1) l] obtain rows' where
      rows': "length rows' = N f"
      and step: "add_field f l data = Inr (data(f \<mapsto> PyList (map PyList rows')))"
      by auto
    let ?data = "data(f \<mapsto> PyList (map PyList rows'))"
    have 1: "\<exists>rows. ?data f = Some (PyList (map PyList rows)) \<and> length rows = N f"
      using rows' by auto
    have 2: "\<forall>k\<in>set ls. \<exists>col. ?data k = Some (PyList col) \<and> length col = N k"
    proof
      fix k assume "k \<in> set ls"
      with Cons.prems(2) have "\<exists>col. data k = Some (PyList col) \<and> length col = N k" by simp
      moreover have "N f = length (map PyList rows')" using rows' by simp
      ultimately show "\<exists>col. ?data k = Some (PyList col) \<and> length col = N k"
        using Cons.prems(1) by (cases "k = f") auto
    qed
    show ?thesis
    proof (cases "\<forall>k\<in>set ls. N k = N f")
      case all: True
      with Cons.IH [OF 1 2] obtain rows'' where
        "length rows'' = N f"
        "add_fields f ls ?data = (None, ?data(f \<mapsto> PyList (map PyList rows'')))"
        by auto
      then have "length rows'' = N f \<and>
          add_fields f (l # ls) data = (None, data(f \<mapsto> PyList (map PyList rows'')))"
        using step by simp
      then show ?thesis using all True by (simp only: list.set ball_simps) auto
    next
      case False
      with Cons.IH [OF 1 2] obtain data' where
        "add_fields f ls ?data = (Some (ValueError []), data')"
        by auto
      then have "add_fields f (l # ls) data = (Some (ValueError []), data')"
        using step by simp
      then show ?thesis using False by auto
    qed
  qed
qed

lemma add_all_sized:
  assumes "\<forall>f\<in>set fs. \<exists>rows. data f = Some (PyList (map PyList rows)) \<and> length rows = N f"
    and "\<forall>l\<in>set ls. \<exists>col. data l = Some (PyList col) \<and> length col = N l"
  shows "fst (add_all fs ls data) =
           (if \<forall>f\<in>set fs. \<forall>l\<in>set ls. N l = N f then None else Some (ValueError []))"
  using assms
proof (induction fs arbitrary: data)
  case Nil
  then show ?case by simp
next
  case (Cons f fs)
  from Cons.prems have f: "\<exists>rows. data f = Some (PyList (map PyList rows)) \<and> length rows = N f"
    by simp
  show ?case
  proof (cases "\<forall>l\<in>set ls. N l = N f")
    case False
    with add_fields_sized [OF f Cons.prems(2)] show ?thesis by auto
  next
    case True
    with add_fields_sized [OF f Cons.prems(2)] obtain rows' where
      rows': "length rows' = N f"
      and step: "add_fields f ls data = (None, data(f \<mapsto> PyList (map PyList rows')))"
      by auto
    let ?data = "data(f \<mapsto> PyList (map PyList rows'))"
    have 1: "\<forall>k\<in>set fs. \<exists>rows. ?data k = Some (PyList (map PyList rows)) \<and> length rows = N k"
      using Cons.prems(1) rows' by auto
    have 2: "\<forall>k\<in>set ls. \<exists>col. ?data k = Some (PyList col) \<and> length col = N k"
    proof
      fix k assume "k \<in> set ls"
      with Cons.prems(2) have "\<exists>col. data k = Some (PyList col) \<and> length col = N k" by simp
      moreover have "N f = length (map PyList rows')" using rows' by simp
      ultimately show "\<exists>col. ?data k = Some (PyList col) \<and> length col = N k"
        by (cases "k = f") auto
    qed
    have ih: "fst (add_all fs ls ?data) =
        (if \<forall>g\<in>set fs. \<forall>l\<in>set ls. N l = N g then None else Some (ValueError []))"
      using 1 2 by (rule Cons.IH)
    have eq: "add_all (f # fs) ls data = add_all fs ls ?data"
      using step by simp
    have cond: "(\<forall>g\<in>set (f # fs). \<forall>l\<in>set ls. N l = N g) \<longleftrightarrow>
        (\<forall>g\<in>set fs. \<forall>l\<in>set ls. N l = N g)"
      using True by auto
    show ?thesis by (simp only: eq ih cond)
  qed
qed

lemma add_fields_append:
  "add_fields f (ls1 @ ls2) data =
     (case add_fields f ls1 data of
        (Some e, data') \<Rightarrow> (Some e, data')
      | (None, data') \<Rightarrow> add_fields f ls2 data')"
  by (induction ls1 arbitrary: data) (simp_all split: sum.splits)

lemma add_all_append:
  "add_all (fs1 @ fs2) ls data =
     (case add_all fs1 ls data of
        (Some e, data') \<Rightarrow> (Some e, data')
      | (None, data') \<Rightarrow> add_all fs2 ls data')"
  by (induction fs1 arbitrary: data) (simp_all split: prod.splits option.splits)

lemma remove_fields_frame:
  "remove_fields f n ils data = (r, data') \<Longrightarrow> k \<notin> snd ` set ils \<Longrightarrow> data' k = data k"
proof (induction ils arbitrary: data)
  case Nil
  then show ?case by simp
next
  case (Cons p ils)
  obtain idx l where p: "p = (idx, l)" by (cases p)
  from Cons show ?case
    by (auto simp: p split: sum.splits)
qed

lemma remove_one_frame:
  "remove_one g ls data = (r, data') \<Longrightarrow> k \<noteq> g \<Longrightarrow> k \<notin> set ls \<Longrightarrow> data' k = data k"
proof -
  assume a: "remove_one g ls data = (r, data')" and k: "k \<noteq> g" "k \<notin> set ls"
  obtain r1 d1 where loop: "remove_fields g (length ls) (enumerate 0 ls) data = (r1, d1)"
    by (cases "remove_fields g (length ls) (enumerate 0 ls) data")
  have "k \<notin> snd ` set (enumerate 0 ls)"
    using k(2) by (metis list.set_map map_snd_enumerate)
  with loop have "d1 k = data k" by (rule remove_fields_frame)
  with a loop k(1) show ?thesis
    by (cases r1) (auto simp: remove_one_def Let_def split: sum.splits if_splits)
qed

lemma remove_all_frame:
  "remove_all fs ls data = (r, data') \<Longrightarrow> k \<notin> set fs \<Longrightarrow> k \<notin> set ls \<Longrightarrow> data' k = data k"
proof (induction fs arbitrary: data)
  case Nil
  then show ?case by simp
next
  case (Cons f fs)
  obtain r1 d1 where one: "remove_one f ls data = (r1, d1)" by (cases "remove_one f ls data")
  with Cons.prems have "d1 k = data k" by (auto dest: remove_one_frame)
  with Cons one show ?case by (cases r1) auto
qed

lemma remove_all_snoc:
  "remove_all (fs @ [f]) ls data =
     (case remove_all fs ls data of
        (Some e, data') \<Rightarrow> (Some e, data')
      | (None, data') \<Rightarrow> remove_one f ls data')"
  by (induction fs arbitrary: data) (auto split: prod.splits option.splits)

lemma remove_fields_result:
  assumes "remove_fields f n ils data = (None, data')"
    and "f \<notin> snd ` set ils" and "distinct (map snd ils)" and "p \<in> set ils"
  shows "\<exists>v col. data f = Some v \<and> label_column n (fst p) v = Inr col \<and> data' (snd p) = Some col"
  using assms
proof (induction ils arbitrary: data)
  case Nil
  then show ?case by simp
next
  case (Cons q ils)
  obtain idx l where q: "q = (idx, l)" by (cases q)
  from Cons.prems(1) obtain v col where
    v: "data f = Some v" and col: "label_column n idx v = Inr col"
    and rest: "remove_fields f n ils (data(l \<mapsto> col)) = (None, data')"
    by (auto simp: q getitem_def and_then_def split: sum.splits option.splits)
  have lf: "l \<noteq> f" using Cons.prems(2) by (auto simp: q)
  show ?case
  proof (cases "p = q")
    case True
    have "l \<notin> snd ` set ils" using Cons.prems(3) by (auto simp: q)
    with rest have "data' l = (data(l \<mapsto> col)) l" by (rule remove_fields_frame)
    with v col True show ?thesis by (simp add: q)
  next
    case False
    with Cons.prems have "p \<in> set ils" "f \<notin> snd ` set ils" "distinct (map snd ils)"
      by auto
    with Cons.IH [OF rest] lf show ?thesis by simp
  qed
qed

lemma py_len_seq: "is_seq v \<Longrightarrow> py_len v = Inr (length (seq_items v))"
  by (cases v) simp_all

lemma py_iter_seq: "is_seq v \<Longrightarrow> py_iter v = Inr (seq_items v)"
  by (cases v) simp_all

lemma mapM_add_seq_rows:
  "list_all is_seq ds \<Longrightarrow>
   mapM (\<lambda>(d, field_value). and_then (py_iter d) (\<lambda>xs. Inr (PyList (xs @ [field_value]))))
        (zip ds col)
   = Inr (map PyList (append_column (map seq_items ds) col))"
proof (induction ds arbitrary: col)
  case Nil
  then show ?case by (simp add: append_column_def)
next
  case (Cons d ds)
  then show ?case
    by (cases col) (simp_all add: append_column_def py_iter_seq)
qed

lemma add_field_seqs:
  assumes "data f = Some a" and "is_rows a" and "data l = Some b" and "is_seq b"
  shows "add_field f l data =
           (if length (seq_items a) = length (seq_items b)
            then Inr (data(f \<mapsto> PyList (map PyList
                   (append_column (map seq_items (seq_items a)) (seq_items b))))) 
            else Inl (ValueError []))"
  using assms
  by (simp add: add_field_def is_rows_def py_len_seq py_iter_seq mapM_add_seq_rows)

lemma add_fields_list_rows:
  assumes "f \<notin> set ls"
    and "data f = Some (PyList (map PyList rows))"
    and "\<forall>l\<in>set ls. data l = Some (B l) \<and> is_seq (B l) \<and> length (seq_items (B l)) = length rows"
  shows "add_fields f ls data =
           (None, data(f \<mapsto> PyList (map PyList
              (foldl append_column rows (map (\<lambda>l. seq_items (B l)) ls)))))"
  using assms
proof (induction ls arbitrary: data rows)
  case Nil
  then show ?case by (simp add: map_upd_triv)
next
  case (Cons l ls)
  let ?rows = "append_column rows (seq_items (B l))"
  let ?data = "data(f \<mapsto> PyList (map PyList ?rows))"
  have rows: "is_rows (PyList (map PyList rows))"
    by (simp add: is_rows_def list_all_iff)
  have items: "map seq_items (map PyList rows) = rows"
    by (simp add: comp_def)
  have "add_field f l data = Inr (data(f \<mapsto> PyList (map PyList
          (append_column (map seq_items (seq_items (PyList (map PyList rows)))) (seq_items (B l))))))"
    using Cons.prems rows by (subst add_field_seqs [where a = "PyList (map PyList rows)" and b = "B l"]) simp_all
  then have step: "add_field f l data = Inr ?data"
    by (simp add: comp_def)
  have "add_fields f ls ?data =
          (None, ?data(f \<mapsto> PyList (map PyList
             (foldl append_column ?rows (map (\<lambda>l. seq_items (B l)) ls)))))"
    using Cons.prems by (intro Cons.IH) auto
  with step show ?case by (simp add: fun_eq_iff)
qed

lemma add_fields_seqs:
  assumes "f \<notin> set ls" and "data f = Some a" and "is_rows a"
    and "\<forall>l\<in>set ls. data l = Some (B l) \<and> is_seq (B l) \<and>
           length (seq_items (B l)) = length (seq_items a)"
  shows "add_fields f ls data =
           (None, if ls = [] then data
                  else data(f \<mapsto> PyList (map PyList
                    (foldl append_column (map seq_items (seq_items a))
                       (map (\<lambda>l. seq_items (B l)) ls)))))"
proof (cases ls)
  case Nil
  then show ?thesis by simp
next
  case (Cons l ls')
  let ?rows = "append_column (map seq_items (seq_items a)) (seq_items (B l))"
  let ?data = "data(f \<mapsto> PyList (map PyList ?rows))"
  have step: "add_field f l data = Inr ?data"
    using assms Cons by (simp add: add_field_seqs)
  have len: "length ?rows = length (seq_items a)"
    using assms(4) Cons by simp
  have "add_fields f ls' ?data =
          (None, ?data(f \<mapsto> PyList (map PyList
             (foldl append_column ?rows (map (\<lambda>l. seq_items (B l)) ls')))))"
    using assms(1,4) Cons len by (intro add_fields_list_rows) auto
  with step Cons show ?thesis by (simp add: fun_eq_iff)
qed

lemma add_all_seqs:
  assumes "distinct fs" and "set ls \<inter> set fs = {}"
    and "\<forall>f\<in>set fs. data f = Some (A f) \<and> is_rows (A f)"
    and "\<forall>l\<in>set ls. data l = Some (B l) \<and> is_seq (B l)"
    and "\<forall>f\<in>set fs. \<forall>l\<in>set ls. length (seq_items (B l)) = length (seq_items (A f))"
  shows "add_all fs ls data =
           (None, if ls = [] then data
                  else (\<lambda>k. if k \<in> set fs
                        then Some (PyList (map PyList
                               (foldl append_column (map seq_items (seq_items (A k)))
                                  (map (\<lambda>l. seq_items (B l)) ls))))
                        else data k))"
  using assms
proof (induction fs arbitrary: data)
  case Nil
  then show ?case by simp
next
  case (Cons f fs)
  let ?v = "\<lambda>k. PyList (map PyList (foldl append_column (map seq_items (seq_items (A k)))
                  (map (\<lambda>l. seq_items (B l)) ls)))"
  let ?data = "if ls = [] then data else data(f \<mapsto> ?v f)"
  have inner: "add_fields f ls data = (None, ?data)"
    using Cons.prems by (intro add_fields_seqs) auto
  have "add_all fs ls ?data =
          (None, if ls = [] then ?data
                 else (\<lambda>k. if k \<in> set fs then Some (?v k) else ?data k))"
    using Cons.prems by (intro Cons.IH) auto
  with inner show ?case by (auto simp: fun_eq_iff)
qed

lemma remove_fields_writes:
  assumes "data f = Some v" and "f \<notin> snd ` set ils"
    and "\<forall>p\<in>set ils. label_column n (fst p) v = Inr (g (snd p))"
  shows "remove_fields f n ils data =
           (None, (\<lambda>k. if k \<in> snd ` set ils then Some (g k) else data k))"
  using assms
proof (induction ils arbitrary: data)
  case Nil
  then show ?case by simp
next
  case (Cons p ils)
  obtain idx l where p: "p = (idx, l)" by (cases p)
  have col: "label_column n idx v = Inr (g l)" and lf: "l \<noteq> f"
    using Cons.prems by (auto simp: p)
  have "remove_fields f n ils (data(l \<mapsto> g l)) =
          (None, (\<lambda>k. if k \<in> snd ` set ils then Some (g k) else (data(l \<mapsto> g l)) k))"
    using Cons.prems lf by (intro Cons.IH) auto
  with col Cons.prems(1) show ?case
    by (auto simp: p fun_eq_iff)
qed

lemma remove_one_seqs:
  assumes "ls \<noteq> []" and "f \<notin> set ls"
    and "data f = Some (PyList (map PyList (foldl append_column rows (map C ls))))"
    and "\<forall>l\<in>set ls. length (C l) = length rows"
  shows "remove_one f ls data =
           (None, (\<lambda>k. if k = f then Some (PyList (map PyList rows))
                       else if k \<in> set ls then Some (PyList (C k)) else data k))"
proof -
  let ?v = "PyList (map PyList (foldl append_column rows (map C ls)))"
  have cols: "\<forall>col\<in>set (map C ls). length col = length rows"
    using assms(4) by simp
  have snd_enum: "snd ` set (enumerate 0 ls) = set ls"
    by (metis list.set_map map_snd_enumerate)
  have "label_column (length ls) (fst p) ?v = Inr (PyList (C (snd p)))"
    if "p \<in> set (enumerate 0 ls)" for p
  proof -
    from that have idx: "fst p < length ls" and l: "snd p = ls ! fst p"
      by (simp_all add: in_set_enumerate_eq)
    have "label_column (length (map C ls)) (fst p) ?v = Inr (PyList (map C ls ! fst p))"
      using cols idx by (intro label_column_merged) simp_all
    with idx l show ?thesis by simp
  qed
  then have "remove_fields f (length ls) (enumerate 0 ls) data =
      (None, (\<lambda>k. if k \<in> snd ` set (enumerate 0 ls) then Some (PyList (C k)) else data k))"
    using assms(2,3) snd_enum by (intro remove_fields_writes [where v = ?v]) auto
  then have loop: "remove_fields f (length ls) (enumerate 0 ls) data =
      (None, (\<lambda>k. if k \<in> set ls then Some (PyList (C k)) else data k))"
    by (simp only: snd_enum)
  have strip: "strip_labels (length ls) ?v = Inr (PyList (map PyList rows))"
    using strip_labels_merged [of "map C ls" rows] cols assms(1) by simp
  show ?thesis
    using assms(1,2,3) strip by (simp add: remove_one_def loop fun_eq_iff)
qed

lemma remove_all_seqs:
  assumes "ls \<noteq> []" and "distinct fs" and "set ls \<inter> set fs = {}"
    and "\<forall>f\<in>set fs. data f = Some (PyList (map PyList (foldl append_column (R f) (map C ls))))"
    and "\<forall>f\<in>set fs. \<forall>l\<in>set ls. length (C l) = length (R f)"
  shows "remove_all fs ls data =
           (None, if fs = [] then data
                  else (\<lambda>k. if k \<in> set fs then Some (PyList (map PyList (R k)))
                            else if k \<in> set ls then Some (PyList (C k)) else data k))"
  using assms
proof (induction fs arbitrary: data)
  case Nil
  then show ?case by simp
next
  case (Cons f fs)
  let ?data = "\<lambda>k. if k = f then Some (PyList (map PyList (R f)))
                     else if k \<in> set ls then Some (PyList (C k)) else data k"
  have one: "remove_one f ls data = (None, ?data)"
    using Cons.prems by (intro remove_one_seqs) auto
  have "remove_all fs ls ?data =
          (None, if fs = [] then ?data
                 else (\<lambda>k. if k \<in> set fs then Some (PyList (map PyList (R k)))
                           else if k \<in> set ls then Some (PyList (C k)) else ?data k))"
    using Cons.prems by (intro Cons.IH) auto
  with one Cons.prems(3) show ?case by (auto simp: fun_eq_iff)
qed

section \<open>The claims\<close>




text \<open>
  C2 (what \<open>preprocess\<close> hands back). The claim has \<open>preprocess\<close> return the mapping. It
  does not: the method has no \<open>return\<close> statement and is annotated \<open>-> None\<close>. On the
  example input it returns \<open>None\<close>.
\<close>

theorem preprocess_returns_mapping_counterexample:
  "fst (preprocess (passthrough ''albumentations'' (Some [''class_id'']) [''bboxes'']) example_data)
     = Inr RetNone \<and>
   fst (preprocess (passthrough ''albumentations'' (Some [''class_id'']) [''bboxes'']) example_data)
     \<noteq> Inr RetData"
  by (simp add: preprocess_def add_label_fields_to_data_def add_field_def passthrough_def
      example_data_def example_rows_def check_and_convert_def)

text \<open>
  C2, amended. For every processor and every input mapping, \<open>preprocess\<close> works on the
  caller's mapping in place and, whenever it returns, returns \<open>None\<close>; the entries it
  changes are those named in \<open>data_fields\<close>, every other entry is left as it was (also when
  an exception ends the call).
\<close>

theorem preprocess_returns_none:
  "(fst (preprocess P data) = Inr r \<longrightarrow> r = RetNone) \<and>
   (k \<notin> set (data_fields P) \<longrightarrow> snd (preprocess P data) k = data k)"
proof -
  obtain r0 d0 where add: "add_label_fields_to_data P data = (r0, d0)"
    by (cases "add_label_fields_to_data P data")
  have d0: "d0 k = data k" if "k \<notin> set (data_fields P)"
    using add that
    by (auto simp: add_label_fields_to_data_def split: option.splits prod.splits dest: add_all_frame)
  show ?thesis
    using add d0
    by (auto simp: preprocess_def split: sum.splits prod.splits option.splits dest: preprocess_loop_frame)
qed

theorem preprocess_returns_none_witness:
  "fst (preprocess (passthrough ''albumentations'' (Some [''class_id'']) [''bboxes'']) example_data)
     = Inr RetNone \<and>
   snd (preprocess (passthrough ''albumentations'' (Some [''class_id'']) [''bboxes'']) example_data) ''bboxes''
     = Some example_internal \<and>
   ''image'' \<notin> set (data_fields (passthrough ''albumentations'' (Some [''class_id'']) [''bboxes''])) \<and>
   snd (preprocess (passthrough ''albumentations'' (Some [''class_id'']) [''bboxes'']) example_data) ''image''
     = Some (PyNdarray [100, 200, 3])"
  using preprocess_returns_none [of "passthrough ''albumentations'' (Some [''class_id'']) [''bboxes'']"
      example_data RetNone "''image''"]
  by (simp add: preprocess_def add_label_fields_to_data_def add_field_def passthrough_def
      example_data_def example_rows_def example_internal_def check_and_convert_def)

text \<open>
  C3 (canonical format). When \<open>params.format\<close> is \<open>"albumentations"\<close>, \<open>check_and_convert\<close>
  runs \<open>check\<close> and nothing else, whatever the direction (so for \<open>"to"\<close> and for
  \<open>"from"\<close>): it raises what \<open>check\<close> raises, and otherwise returns the rows it was given.
\<close>

theorem check_and_convert_canonical:
  assumes "format (params P) = ''albumentations''"
  shows "check_and_convert P data rows cols direction =
           (case check P data rows cols of Inl e \<Rightarrow> Inl e | Inr u \<Rightarrow> Inr data)"
  using assms by (simp add: check_and_convert_def and_then_def)

theorem check_and_convert_canonical_witness:
  "format (params (passthrough ''albumentations'' None [''bboxes''])) = ''albumentations'' \<and>
   check_and_convert (passthrough ''albumentations'' None [''bboxes'']) example_rows 100 200 ''to''
     = Inr example_rows \<and>
   check_and_convert (passthrough ''albumentations'' None [''bboxes'']) example_rows 100 200 ''from''
     = Inr example_rows"
  using check_and_convert_canonical [of "passthrough ''albumentations'' None [''bboxes'']"
      example_rows 100 200 "''to''"]
    check_and_convert_canonical [of "passthrough ''albumentations'' None [''bboxes'']"
      example_rows 100 200 "''from''"]
  by (simp add: passthrough_def)

text \<open>
  C4 (direction contract). For a format other than \<open>"albumentations"\<close>, a direction that is
  neither \<open>"to"\<close> nor \<open>"from"\<close> makes \<open>check_and_convert\<close> raise \<open>ValueError\<close>, with the
  message that quotes the direction.
\<close>

theorem check_and_convert_bad_direction:
  assumes "format (params P) \<noteq> ''albumentations''"
    and "direction \<noteq> ''to''" and "direction \<noteq> ''from''"
  shows "check_and_convert P data rows cols direction =
           Inl (ValueError (''Invalid direction. Must be `to` or `from`. Got `'' @ direction @ ''`''))"
  using assms by (simp add: check_and_convert_def)

theorem check_and_convert_bad_direction_witness:
  "format (params (passthrough ''coco'' None [''bboxes''])) \<noteq> ''albumentations'' \<and>
   ''x'' \<noteq> ''to'' \<and> ''x'' \<noteq> ''from'' \<and>
   check_and_convert (passthrough ''coco'' None [''bboxes'']) example_rows 100 200 ''x''
     = Inl (ValueError ''Invalid direction. Must be `to` or `from`. Got `x`'')"
  using check_and_convert_bad_direction [of "passthrough ''coco'' None [''bboxes'']" "''x''"
      example_rows 100 200]
  by (simp add: passthrough_def)

text \<open>
  C5 (length mismatch). Every annotation field holds a list of rows and every declared label
  field a list. If for some annotation field and some declared label field the two lists
  differ in length, \<open>add_label_fields_to_data\<close> raises \<open>ValueError\<close>.
\<close>

theorem add_label_fields_length_mismatch:
  assumes "label_fields (params P) = Some lfs"
    and "\<forall>f\<in>set (data_fields P). data f = Some (PyList (map PyList (R f)))"
    and "\<forall>l\<in>set lfs. data l = Some (PyList (L l))"
    and "f \<in> set (data_fields P)" and "l \<in> set lfs"
    and "length (R f) \<noteq> length (L l)"
  shows "fst (add_label_fields_to_data P data) = Inl (ValueError [])"
proof -
  define N where "N k = (case data k of Some (PyList xs) \<Rightarrow> length xs | _ \<Rightarrow> 0)" for k
  have 1: "\<forall>f\<in>set (data_fields P). \<exists>rows. data f = Some (PyList (map PyList rows)) \<and> length rows = N f"
    using assms(2) by (fastforce simp: N_def)
  have 2: "\<forall>l\<in>set lfs. \<exists>col. data l = Some (PyList col) \<and> length col = N l"
    using assms(3) by (fastforce simp: N_def)
  from assms have "N f = length (R f)" "N l = length (L l)"
    by (simp_all add: N_def)
  with assms(6) have "N l \<noteq> N f"
    by simp
  with assms(4,5) have "\<not> (\<forall>f\<in>set (data_fields P). \<forall>l\<in>set lfs. N l = N f)"
    by blast
  with add_all_sized [OF 1 2] have "fst (add_all (data_fields P) lfs data) = Some (ValueError [])"
    by simp
  with assms(1) show ?thesis
    by (cases "add_all (data_fields P) lfs data") (simp add: add_label_fields_to_data_def)
qed

theorem add_label_fields_length_mismatch_witness:
  "length [[PyInt 9, PyInt 10, PyInt 11, PyInt 12], [PyInt 13, PyInt 14, PyInt 15, PyInt 16]]
     \<noteq> length [PyStr ''cat''] \<and>
   fst (add_label_fields_to_data two_stream_processor
     (two_stream_data(''name'' \<mapsto> PyList [PyStr ''cat'']))) = Inl (ValueError [])"
  using add_label_fields_length_mismatch [of two_stream_processor
      "[''class_id'', ''name'']" "two_stream_data(''name'' \<mapsto> PyList [PyStr ''cat''])"
      "\<lambda>k. if k = ''bboxes''
           then [[PyInt 1, PyInt 2, PyInt 3, PyInt 4], [PyInt 5, PyInt 6, PyInt 7, PyInt 8]]
           else [[PyInt 9, PyInt 10, PyInt 11, PyInt 12], [PyInt 13, PyInt 14, PyInt 15, PyInt 16]]"
      "\<lambda>k. if k = ''class_id'' then [PyInt 7, PyInt 8] else [PyStr ''cat'']"
      "''bboxes2''" "''name''"]
  by (simp add: two_stream_processor_def init_data_fields_def passthrough_def two_stream_data_def)

text \<open>
  C6 (\<open>get_shape\<close>). For an array with at least two dimensions \<open>get_shape\<close> returns the first
  two, for a tensor with at least two dimensions the last two, and for a value that is neither
  an array nor a tensor it raises \<open>RuntimeError\<close> with a message that ends in the text of the
  value's type.
\<close>

theorem get_shape_cases:
  "get_shape (PyNdarray (height # width # channels)) = Inr [height, width] \<and>
   get_shape (PyTensor (batch @ [height, width])) = Inr [height, width] \<and>
   ((\<forall>shp. img \<noteq> PyNdarray shp) \<and> (\<forall>shp. img \<noteq> PyTensor shp) \<longrightarrow>
      get_shape img = Inl (RuntimeError
        (''Albumentations supports only numpy.ndarray and torch.Tensor data type for image. Got: '' @
         type_repr img)))"
  by (cases img) simp_all

theorem get_shape_cases_witness:
  "get_shape (PyNdarray [100, 200, 3]) = Inr [100, 200] \<and>
   get_shape (PyTensor [3, 100, 200]) = Inr [100, 200] \<and>
   (\<forall>shp. PyList [] \<noteq> PyNdarray shp) \<and> (\<forall>shp. PyList [] \<noteq> PyTensor shp) \<and>
   get_shape (PyList []) = Inl (RuntimeError
     ''Albumentations supports only numpy.ndarray and torch.Tensor data type for image. Got: <class 'list'>'')"
  using get_shape_cases [of 100 200 "[3]" "[3]" "PyList []"]
  by simp

text \<open>
  C7 (end-to-end example). One image of height 100 and width 200, \<open>data_fields = ["bboxes"]\<close>,
  \<open>label_fields = ["class_id"]\<close>, the format \<open>"albumentations"\<close>,
  \<open>bboxes = [[10, 10, 50, 50]]\<close> and \<open>class_id = [3]\<close>, with kind-specific operations that
  hand these rows through. Then \<open>preprocess\<close> stores \<open>[[10, 10, 50, 50, 3]]\<close> under
  \<open>"bboxes"\<close>, and \<open>postprocess\<close> on the mapping \<open>preprocess\<close> left (the identity
  transform in between) gives \<open>bboxes == [[10, 10, 50, 50]]\<close> and \<open>class_id == [3]\<close>.
\<close>

theorem end_to_end_example:
  assumes "format (params P) = ''albumentations''"
    and "data_fields P = [''bboxes'']"
    and "label_fields (params P) = Some [''class_id'']"
    and "convert_to_internal_type P example_internal = Inr example_internal"
    and "check P example_internal 100 200 = Inr ()"
    and "filter_data P example_internal 100 200 ''bboxes'' = Inr example_internal"
    and "convert_to_original_type P example_internal = Inr example_internal"
    and "data ''image'' = Some (PyNdarray (100 # 200 # channels))"
    and "data ''bboxes'' = Some example_rows"
    and "data ''class_id'' = Some (PyList [PyInt 3])"
  shows "snd (preprocess P data) ''bboxes'' = Some example_internal \<and>
         fst (postprocess P (snd (preprocess P data))) = Inr RetData \<and>
         snd (postprocess P (snd (preprocess P data))) ''bboxes'' = Some example_rows \<and>
         snd (postprocess P (snd (preprocess P data))) ''class_id'' = Some (PyList [PyInt 3])"
proof -
  let ?d1 = "data(''bboxes'' \<mapsto> example_internal)"
  have add: "add_label_fields_to_data P data = (Inr RetData, ?d1)"
    using assms
    by (simp add: add_label_fields_to_data_def add_field_def example_rows_def example_internal_def)
  have pre: "preprocess P data = (Inr RetNone, ?d1)"
    using assms by (simp add: preprocess_def add check_and_convert_def)
  have rem: "remove_label_fields_from_data P ?d1 =
      (Inr RetData, ?d1(''class_id'' \<mapsto> PyList [PyInt 3], ''bboxes'' \<mapsto> example_rows))"
    using assms
    by (simp add: remove_label_fields_from_data_def remove_one_def enumerate_eq_zip
        label_column_def strip_labels_def example_internal_def example_rows_def
        norm_index_def slice_stop_def)
  have post: "postprocess P ?d1 =
      (Inr RetData, ?d1(''class_id'' \<mapsto> PyList [PyInt 3], ''bboxes'' \<mapsto> example_rows))"
    using assms rem by (simp add: postprocess_def check_and_convert_def)
  show ?thesis by (simp add: pre post)
qed

theorem end_to_end_example_witness:
  "snd (preprocess (passthrough ''albumentations'' (Some [''class_id'']) [''bboxes'']) example_data)
     ''bboxes'' = Some (PyList [PyList [PyInt 10, PyInt 10, PyInt 50, PyInt 50, PyInt 3]]) \<and>
   snd (postprocess (passthrough ''albumentations'' (Some [''class_id'']) [''bboxes''])
     (snd (preprocess (passthrough ''albumentations'' (Some [''class_id'']) [''bboxes'']) example_data)))
     ''bboxes'' = Some (PyList [PyList [PyInt 10, PyInt 10, PyInt 50, PyInt 50]]) \<and>
   snd (postprocess (passthrough ''albumentations'' (Some [''class_id'']) [''bboxes''])
     (snd (preprocess (passthrough ''albumentations'' (Some [''class_id'']) [''bboxes'']) example_data)))
     ''class_id'' = Some (PyList [PyInt 3])"
  using end_to_end_example [of "passthrough ''albumentations'' (Some [''class_id'']) [''bboxes'']"
      example_data "[3]"]
  by (simp add: passthrough_def example_data_def example_rows_def example_internal_def)

text \<open>
  C8 (the consistency wrapper). Whatever the wrapper of \<open>ensure_internal_format\<close> hands back
  is the value the wrapped function returned, it is a \<open>BatchInternalType\<close>, and
  \<open>check_consistency\<close> has accepted it; on a returned \<open>BatchInternalType\<close> the wrapper raises
  what \<open>check_consistency\<close> raises and otherwise returns the value; on a returned value of
  any other type it raises \<open>TypeError\<close>.
\<close>

theorem ensure_internal_format_contract:
  "(ensure_internal_format is_batch check_consistency type_of func_name func x = Inr v \<longrightarrow>
      func x = Inr v \<and> is_batch v \<and> check_consistency v = Inr ()) \<and>
   (func x = Inr data \<and> is_batch data \<longrightarrow>
      ensure_internal_format is_batch check_consistency type_of func_name func x =
        (case check_consistency data of Inl e \<Rightarrow> Inl e | Inr u \<Rightarrow> Inr data)) \<and>
   (func x = Inr data \<and> \<not> is_batch data \<longrightarrow>
      ensure_internal_format is_batch check_consistency type_of func_name func x =
        Inl (TypeError (''The return from '' @ func_name @
          '' should be a `BatchInternalType`, instead it returns a '' @ type_of data @ ''.'')))"
  by (auto simp: ensure_internal_format_def and_then_def split: sum.splits if_splits)

theorem ensure_internal_format_contract_witness:
  "ensure_internal_format (\<lambda>v. v = PyObject ''BBoxesInternalType'') (\<lambda>v. Inr ()) type_repr
     ''apply'' Inr (PyObject ''BBoxesInternalType'') = Inr (PyObject ''BBoxesInternalType'') \<and>
   ensure_internal_format (\<lambda>v. v = PyObject ''BBoxesInternalType'') (\<lambda>v. Inr ()) type_repr
     ''apply'' Inr (PyList []) = Inl (TypeError
       ''The return from apply should be a `BatchInternalType`, instead it returns a <class 'list'>.'')"
  using ensure_internal_format_contract [of "\<lambda>v. v = PyObject ''BBoxesInternalType''" "\<lambda>v. Inr ()"
      type_repr "''apply''" Inr "PyObject ''BBoxesInternalType''" "PyObject ''BBoxesInternalType''"
      "PyObject ''BBoxesInternalType''"]
    ensure_internal_format_contract [of "\<lambda>v. v = PyObject ''BBoxesInternalType''" "\<lambda>v. Inr ()"
      type_repr "''apply''" Inr "PyList []" "PyList []" "PyList []"]
  by simp

text \<open>
  C9 (the last annotation field wins). With declared label fields (distinct names, none of
  them an annotation field) and \<open>data_fields\<close> ending in a name that occurs only there:
  whenever \<open>remove_label_fields_from_data\<close> returns, every label field of the mapping holds
  the column \<open>[bbox[-n + idx] for bbox in ...]\<close> of the rows that the last annotation
  field held on entry. What the earlier annotation fields wrote there is overwritten.
\<close>

theorem remove_label_fields_last_wins:
  assumes "label_fields (params P) = Some lfs"
    and "data_fields P = dfs @ [last_name]"
    and "last_name \<notin> set dfs" and "distinct lfs"
    and "set lfs \<inter> set (dfs @ [last_name]) = {}"
    and "remove_label_fields_from_data P data = (Inr r, data')"
    and "idx < length lfs"
  shows "\<exists>v col. data last_name = Some v \<and> label_column (length lfs) idx v = Inr col \<and>
           data' (lfs ! idx) = Some col"
proof -
  from assms(1,2,6) have all: "remove_all (dfs @ [last_name]) lfs data = (None, data')"
    by (auto simp: remove_label_fields_from_data_def split: prod.splits option.splits)
  then obtain d1 where earlier: "remove_all dfs lfs data = (None, d1)"
    and one: "remove_one last_name lfs d1 = (None, data')"
    by (auto simp: remove_all_snoc split: prod.splits option.splits)
  have notin: "last_name \<notin> set lfs" using assms(5) by auto
  from earlier assms(3) notin have d1: "d1 last_name = data last_name"
    by (rule remove_all_frame)
  from one obtain d2 where loop: "remove_fields last_name (length lfs) (enumerate 0 lfs) d1 = (None, d2)"
    and d2: "\<And>k. k \<noteq> last_name \<Longrightarrow> data' k = d2 k"
    by (auto simp: remove_one_def Let_def split: prod.splits option.splits sum.splits if_splits)
  have "(idx, lfs ! idx) \<in> set (enumerate 0 lfs)"
    using assms(7) by (simp add: in_set_enumerate_eq)
  moreover have "last_name \<notin> snd ` set (enumerate 0 lfs)"
    using notin by (metis list.set_map map_snd_enumerate)
  moreover have "distinct (map snd (enumerate 0 lfs))"
    using assms(4) by simp
  ultimately obtain v col where "d1 last_name = Some v"
    "label_column (length lfs) idx v = Inr col" "d2 (lfs ! idx) = Some col"
    using remove_fields_result [OF loop] by fastforce
  moreover have "lfs ! idx \<noteq> last_name"
    using notin assms(7) by (metis nth_mem)
  ultimately show ?thesis using d1 d2 by auto
qed

theorem remove_label_fields_last_wins_witness:
  "remove_label_fields_from_data two_stream_processor two_stream_merged =
     (Inr RetData,
      [''image'' \<mapsto> PyNdarray [100, 200, 3],
       ''bboxes'' \<mapsto> PyList [PyList [PyInt 1, PyInt 2, PyInt 3, PyInt 4],
                           PyList [PyInt 5, PyInt 6, PyInt 7, PyInt 8]],
       ''bboxes2'' \<mapsto> PyList [PyList [PyInt 9, PyInt 10, PyInt 11, PyInt 12],
                            PyList [PyInt 13, PyInt 14, PyInt 15, PyInt 16]],
       ''class_id'' \<mapsto> PyList [PyInt 1, PyInt 2],
       ''name'' \<mapsto> PyList [PyStr ''owl'', PyStr ''fox'']]) \<and>
   (\<exists>v col. two_stream_merged ''bboxes2'' = Some v \<and>
      label_column (length [''class_id'', ''name'']) 1 v = Inr col \<and>
      col = PyList [PyStr ''owl'', PyStr ''fox''])"
proof -
  have run: "remove_label_fields_from_data two_stream_processor two_stream_merged =
     (Inr RetData,
      [''image'' \<mapsto> PyNdarray [100, 200, 3],
       ''bboxes'' \<mapsto> PyList [PyList [PyInt 1, PyInt 2, PyInt 3, PyInt 4],
                           PyList [PyInt 5, PyInt 6, PyInt 7, PyInt 8]],
       ''bboxes2'' \<mapsto> PyList [PyList [PyInt 9, PyInt 10, PyInt 11, PyInt 12],
                            PyList [PyInt 13, PyInt 14, PyInt 15, PyInt 16]],
       ''class_id'' \<mapsto> PyList [PyInt 1, PyInt 2],
       ''name'' \<mapsto> PyList [PyStr ''owl'', PyStr ''fox'']])"
    by (simp add: remove_label_fields_from_data_def two_stream_processor_def init_data_fields_def passthrough_def
        two_stream_merged_def remove_one_def enumerate_eq_zip label_column_def strip_labels_def
        norm_index_def slice_stop_def fun_eq_iff)
  have "label_fields (params two_stream_processor) = Some [''class_id'', ''name'']"
    and "data_fields two_stream_processor = [''bboxes''] @ [''bboxes2'']"
    and "''bboxes2'' \<notin> set [''bboxes'']" and "distinct [''class_id'', ''name'']"
    and "set [''class_id'', ''name''] \<inter> set ([''bboxes''] @ [''bboxes2'']) = {}"
    and "1 < length [''class_id'', ''name'']"
    by (simp_all add: two_stream_processor_def init_data_fields_def passthrough_def)
  from remove_label_fields_last_wins [OF this(1-5) run this(6)]
  have "\<exists>v col. two_stream_merged ''bboxes2'' = Some v \<and>
      label_column (length [''class_id'', ''name'']) 1 v = Inr col \<and>
      col = PyList [PyStr ''owl'', PyStr ''fox'']"
    by auto
  with run show ?thesis by (rule conjI)
qed

text \<open>
  C10 (no atomicity). The annotation fields \<open>fs1\<close> agree in length with every label field,
  the next annotation field \<open>f\<close> agrees with the label fields \<open>ls1\<close> and disagrees with the
  label field \<open>l\<close> that follows them. Then \<open>add_label_fields_to_data\<close> raises
  \<open>ValueError\<close>, and the mapping it leaves has all label columns appended to the rows of
  \<open>fs1\<close> and the columns of \<open>ls1\<close> appended to the rows of \<open>f\<close>.
\<close>

theorem add_label_fields_not_atomic:
  assumes "label_fields (params P) = Some (ls1 @ l # ls2)"
    and "data_fields P = fs1 @ f # fs2"
    and "distinct (fs1 @ [f])"
    and "set (ls1 @ l # ls2) \<inter> set (fs1 @ [f]) = {}"
    and "\<forall>k\<in>set (fs1 @ [f]). data k = Some (PyList (map PyList (R k)))"
    and "\<forall>k\<in>set (ls1 @ l # ls2). data k = Some (PyList (L k))"
    and "\<forall>k\<in>set fs1. \<forall>j\<in>set (ls1 @ l # ls2). length (L j) = length (R k)"
    and "\<forall>j\<in>set ls1. length (L j) = length (R f)"
    and "length (L l) \<noteq> length (R f)"
  shows "add_label_fields_to_data P data =
     (Inl (ValueError []),
      (\<lambda>k. if k \<in> set fs1
           then Some (PyList (map PyList (foldl append_column (R k) (map L (ls1 @ l # ls2)))))
           else if k = f
           then Some (PyList (map PyList (foldl append_column (R f) (map L ls1))))
           else data k))"
proof -
  let ?ls = "ls1 @ l # ls2"
  let ?m1 = "\<lambda>k. if k \<in> set fs1
                  then Some (PyList (map PyList (foldl append_column (R k) (map L ?ls))))
                  else data k"
  let ?rows = "foldl append_column (R f) (map L ls1)"
  let ?m2 = "?m1(f \<mapsto> PyList (map PyList ?rows))"
  have earlier: "add_all fs1 ?ls data = (None, ?m1)"
    using assms by (intro add_all_lists) auto
  have f: "f \<notin> set fs1" "f \<notin> set ls1" "l \<noteq> f"
    using assms(3,4) by auto
  have m1f: "?m1 f = Some (PyList (map PyList (R f)))"
    using f assms(5) by simp
  have m1l: "\<forall>j\<in>set ls1. ?m1 j = Some (PyList (L j)) \<and> length (L j) = length (R f)"
    using assms(4,6,8) by auto
  have labels: "add_fields f ls1 ?m1 = (None, ?m2)"
    using f(2) m1f m1l by (rule add_fields_lists)
  have len: "length ?rows = length (R f)"
    using assms(8) by (intro length_foldl_append_column) simp
  have "?m2 l = Some (PyList (L l))"
    using f assms(4,6) by auto
  moreover have "?m2 f = Some (PyList (map PyList ?rows))"
    by simp
  ultimately have "add_field f l ?m2 = Inl (ValueError [])"
    using len assms(9) by (simp add: add_field_lists)
  then have "add_fields f (l # ls2) ?m2 = (Some (ValueError []), ?m2)"
    by simp
  with labels have "add_fields f ?ls ?m1 = (Some (ValueError []), ?m2)"
    by (simp add: add_fields_append)
  then have "add_all (f # fs2) ?ls ?m1 = (Some (ValueError []), ?m2)"
    by simp
  with earlier have "add_all (fs1 @ f # fs2) ?ls data = (Some (ValueError []), ?m2)"
    by (simp add: add_all_append)
  moreover have "?m2 = (\<lambda>k. if k \<in> set fs1
           then Some (PyList (map PyList (foldl append_column (R k) (map L ?ls))))
           else if k = f then Some (PyList (map PyList ?rows)) else data k)"
    using f by (auto simp: fun_eq_iff)
  ultimately show ?thesis
    using assms(1,2) by (simp add: add_label_fields_to_data_def)
qed

theorem add_label_fields_not_atomic_witness:
  "add_label_fields_to_data two_stream_processor (two_stream_data(''name'' \<mapsto> PyList [PyStr ''cat''])) =
     (Inl (ValueError []),
      (two_stream_data(''name'' \<mapsto> PyList [PyStr ''cat'']))
        (''bboxes'' \<mapsto> PyList [PyList [PyInt 1, PyInt 2, PyInt 3, PyInt 4, PyInt 7],
                            PyList [PyInt 5, PyInt 6, PyInt 7, PyInt 8, PyInt 8]])) \<and>
   snd (add_label_fields_to_data two_stream_processor
     (two_stream_data(''bboxes2'' \<mapsto> PyList [PyList [PyInt 9, PyInt 10, PyInt 11, PyInt 12]]))) ''bboxes'' =
     Some (PyList [PyList [PyInt 1, PyInt 2, PyInt 3, PyInt 4, PyInt 7, PyStr ''cat''],
                   PyList [PyInt 5, PyInt 6, PyInt 7, PyInt 8, PyInt 8, PyStr ''dog'']]) \<and>
   fst (add_label_fields_to_data two_stream_processor
     (two_stream_data(''bboxes2'' \<mapsto> PyList [PyList [PyInt 9, PyInt 10, PyInt 11, PyInt 12]]))) =
     Inl (ValueError [])"
  using add_label_fields_not_atomic [of two_stream_processor "[''class_id'']" "''name''" "[]"
      "[]" "''bboxes''" "[''bboxes2'']" "two_stream_data(''name'' \<mapsto> PyList [PyStr ''cat''])"
      "\<lambda>k. [[PyInt 1, PyInt 2, PyInt 3, PyInt 4], [PyInt 5, PyInt 6, PyInt 7, PyInt 8]]"
      "\<lambda>k. if k = ''class_id'' then [PyInt 7, PyInt 8] else [PyStr ''cat'']"]
    add_label_fields_not_atomic [of two_stream_processor "[]" "''class_id''" "[''name'']"
      "[''bboxes'']" "''bboxes2''" "[]"
      "two_stream_data(''bboxes2'' \<mapsto> PyList [PyList [PyInt 9, PyInt 10, PyInt 11, PyInt 12]])"
      "\<lambda>k. if k = ''bboxes''
           then [[PyInt 1, PyInt 2, PyInt 3, PyInt 4], [PyInt 5, PyInt 6, PyInt 7, PyInt 8]]
           else [[PyInt 9, PyInt 10, PyInt 11, PyInt 12]]"
      "\<lambda>k. if k = ''class_id'' then [PyInt 7, PyInt 8] else [PyStr ''cat'', PyStr ''dog'']"]
  by (simp add: two_stream_processor_def init_data_fields_def passthrough_def two_stream_data_def append_column_def fun_eq_iff)

end
